theory Spec2Isabelle
  imports Main "HOL-Library.Word"
begin

section \<open>Bytes, exceptions and results\<close>

text \<open>
  A Python \<open>bytes\<close> value is a list of octets. Python integers are unbounded and are
  modelled by \<open>int\<close>. A Python \<open>str\<close> is a sequence of Unicode code points.
\<close>

type_synonym byte = "8 word"
type_synonym py_str = "nat list"

definition str_lit :: "string \<Rightarrow> py_str" where
  "str_lit s = map of_char s"

text \<open>
  The exception classes that the code of \<open>device.py\<close> can meet. \<open>BleakError\<close> stands for
  the transport's exception class and its subclasses (the only class the source catches);
  \<open>OtherError\<close> stands for any exception class of the transport that is not a
  \<open>BleakError\<close>.
\<close>

datatype py_error =
    StructError
  | TypeError
  | ValueError
  | UnicodeDecodeError
  | AttributeError
  | IndexError
  | BleakError
  | OtherError

text \<open>
  A method that mutates its object either returns or raises; in both cases the object is
  left in some state, which the result carries.
\<close>

datatype 'a result = Returned 'a | Raised py_error 'a

text \<open>
  What \<open>asyncio.gather(..., return_exceptions=True)\<close> hands back for one awaitable: the
  bytes that were read, or the exception object that the read raised.
\<close>

datatype obj = Bytes "byte list" | Exc py_error

text \<open>
  Modelled from the spec: the module \<open>constants.py\<close> with the characteristic UUIDs is not
  part of the code verified here. The five UUIDs that \<open>device.py\<close> imports name five
  different characteristics; they are the first five constructors, and \<open>Other_UUID\<close> is
  any other string.
\<close>

datatype uuid =
    BATTERY_UUID
  | MANUFACTURER_UUID
  | UPDATED_AT_UUID
  | VALVE_MANUAL_SETTINGS_UUID
  | VALVE_MANUAL_STATES_UUID
  | Other_UUID string

section \<open>The struct module, as far as the source uses it\<close>

text \<open>
  \<open>struct.unpack_from(fmt, buffer, offset)\<close> for a format of \<open>sz\<close> bytes: a buffer
  that is not bytes-like is a \<open>TypeError\<close>; a negative offset counts from the end of the
  buffer; a window that does not fit raises \<open>struct.error\<close>. The function returns the
  window of \<open>sz\<close> bytes that the format then decodes.
\<close>

definition unpack_from :: "nat \<Rightarrow> obj \<Rightarrow> int \<Rightarrow> py_error + byte list" where
  "unpack_from sz buffer offset =
     (case buffer of
        Exc _ \<Rightarrow> Inl TypeError
      | Bytes buf \<Rightarrow>
          (let len = int (length buf) in
           if offset < 0 \<and> offset + int sz > 0 then Inl StructError
           else if offset < 0 \<and> offset + len < 0 then Inl StructError
           else
             (let off = (if offset < 0 then offset + len else offset) in
              if len - off < int sz then Inl StructError
              else Inr (take sz (drop (nat off) buf)))))"

text \<open>Big-endian unsigned value of a window of bytes (formats \<open>>H\<close> and \<open>>I\<close>).\<close>

definition be_uint :: "byte list \<Rightarrow> int" where
  "be_uint bs = foldl (\<lambda>acc b. acc * 256 + uint b) 0 bs"

text \<open>Format \<open>>?\<close>: one byte, true when it is not zero.\<close>

definition unpack_from_bool :: "obj \<Rightarrow> int \<Rightarrow> py_error + bool" where
  "unpack_from_bool buffer offset =
     (case unpack_from 1 buffer offset of
        Inl e \<Rightarrow> Inl e
      | Inr w \<Rightarrow> Inr (w \<noteq> [0]))"

text \<open>Format \<open>>H\<close>: two bytes, big-endian unsigned.\<close>

definition unpack_from_H :: "obj \<Rightarrow> int \<Rightarrow> py_error + int" where
  "unpack_from_H buffer offset =
     (case unpack_from 2 buffer offset of
        Inl e \<Rightarrow> Inl e
      | Inr w \<Rightarrow> Inr (be_uint w))"

text \<open>Format \<open>>I\<close>: four bytes, big-endian unsigned.\<close>

definition unpack_from_I :: "obj \<Rightarrow> int \<Rightarrow> py_error + int" where
  "unpack_from_I buffer offset =
     (case unpack_from 4 buffer offset of
        Inl e \<Rightarrow> Inl e
      | Inr w \<Rightarrow> Inr (be_uint w))"

text \<open>
  Packing. \<open>?\<close> writes 1 for a true value and 0 for a false one; \<open>H\<close> accepts
  \<open>0 .. 65535\<close> and \<open>I\<close> accepts \<open>0 .. 4294967295\<close>, anything else raises
  \<open>struct.error\<close>.
\<close>

definition pack_bool :: "bool \<Rightarrow> byte list" where
  "pack_bool b = [if b then 1 else 0]"

definition pack_H :: "int \<Rightarrow> py_error + byte list" where
  "pack_H n =
     (if 0 \<le> n \<and> n \<le> 65535
      then Inr [word_of_int (n div 256), word_of_int (n mod 256)]
      else Inl StructError)"

definition pack_I :: "int \<Rightarrow> py_error + byte list" where
  "pack_I n =
     (if 0 \<le> n \<and> n \<le> 4294967295
      then Inr [word_of_int (n div 16777216), word_of_int (n div 65536 mod 256),
                word_of_int (n div 256 mod 256), word_of_int (n mod 256)]
      else Inl StructError)"

section \<open>Valve\<close>

record valve =
  v_id :: int
  v_is_watering :: bool
  v_manual_minutes :: int
  v_end_time :: int

text \<open>\<open>Valve.__init__(identifier, device)\<close>.\<close>

definition Valve_init :: "int \<Rightarrow> valve" where
  "Valve_init identifier =
     \<lparr> v_id = identifier, v_is_watering = False, v_manual_minutes = 20, v_end_time = 0 \<rparr>"

text \<open>
  \<open>Valve.update_state(raw_bytes, uuid)\<close>. The first argument is the value of
  \<open>time_shift()\<close>, a function of \<open>parser/date.py\<close>, which is not verified here.
  The settings branch assigns \<open>_is_watering\<close> before it unpacks \<open>_manual_minutes\<close>, so
  an exception of the second unpack leaves the first assignment in place.
\<close>

definition update_state :: "int \<Rightarrow> valve \<Rightarrow> obj \<Rightarrow> uuid \<Rightarrow> valve result" where
  "update_state shift self raw_bytes u =
     (let offset = v_id self * 5 in
      if u = VALVE_MANUAL_SETTINGS_UUID then
        (case unpack_from_bool raw_bytes offset of
           Inl e \<Rightarrow> Raised e self
         | Inr w \<Rightarrow>
             (let self1 = self\<lparr>v_is_watering := w\<rparr> in
              case unpack_from_H raw_bytes (offset + 1) of
                Inl e \<Rightarrow> Raised e self1
              | Inr m \<Rightarrow> Returned (self1\<lparr>v_manual_minutes := m\<rparr>)))
      else if u = VALVE_MANUAL_STATES_UUID then
        (case unpack_from_I raw_bytes (offset + 1) of
           Inl e \<Rightarrow> Raised e self
         | Inr parsed_time \<Rightarrow>
             Returned (self\<lparr>v_end_time :=
               (if parsed_time \<noteq> 0 then parsed_time - shift else 0)\<rparr>))
      else Returned self)"

text \<open>The read-only properties of a valve.\<close>

definition is_watering :: "valve \<Rightarrow> bool" where
  "is_watering self = (v_is_watering self = True)"

definition manual_watering_minutes :: "valve \<Rightarrow> int" where
  "manual_watering_minutes self = v_manual_minutes self"

definition watering_end_time :: "valve \<Rightarrow> int" where
  "watering_end_time self = v_end_time self"

text \<open>\<open>Valve._manual_setting_bytes()\<close>: \<open>struct.pack(">?HH", ...)\<close>.\<close>

definition manual_setting_bytes :: "valve \<Rightarrow> py_error + byte list" where
  "manual_setting_bytes self =
     (case pack_H (v_manual_minutes self) of
        Inl e \<Rightarrow> Inl e
      | Inr m \<Rightarrow> Inr (pack_bool (v_is_watering self) @ m @ m))"

section \<open>Decoding the manufacturer data\<close>

text \<open>
  \<open>bytes.decode("utf-8")\<close>, strict: one scalar value is one to four bytes; overlong
  forms, surrogates and values above \<open>0x10FFFF\<close> are refused, as are stray and missing
  continuation bytes.
\<close>

definition is_cont :: "byte \<Rightarrow> bool" where
  "is_cont b = (0x80 \<le> b \<and> b \<le> 0xBF)"

definition cont_bits :: "byte \<Rightarrow> nat" where
  "cont_bits b = unat b mod 64"

fun decode_char :: "byte list \<Rightarrow> (nat \<times> byte list) option" where
  "decode_char [] = None"
| "decode_char (b0 # bs) =
     (if b0 < 0x80 then Some (unat b0, bs)
      else if 0xC2 \<le> b0 \<and> b0 \<le> 0xDF then
        (case bs of
           b1 # r \<Rightarrow>
             if is_cont b1 then Some (unat b0 mod 32 * 64 + cont_bits b1, r) else None
         | _ \<Rightarrow> None)
      else if 0xE0 \<le> b0 \<and> b0 \<le> 0xEF then
        (case bs of
           b1 # b2 # r \<Rightarrow>
             if is_cont b1 \<and> is_cont b2
                \<and> (if b0 = 0xE0 then 0xA0 \<le> b1 else True)
                \<and> (if b0 = 0xED then b1 \<le> 0x9F else True)
             then Some (unat b0 mod 16 * 4096 + cont_bits b1 * 64 + cont_bits b2, r)
             else None
         | _ \<Rightarrow> None)
      else if 0xF0 \<le> b0 \<and> b0 \<le> 0xF4 then
        (case bs of
           b1 # b2 # b3 # r \<Rightarrow>
             if is_cont b1 \<and> is_cont b2 \<and> is_cont b3
                \<and> (if b0 = 0xF0 then 0x90 \<le> b1 else True)
                \<and> (if b0 = 0xF4 then b1 \<le> 0x8F else True)
             then Some (unat b0 mod 8 * 262144 + cont_bits b1 * 4096
                        + cont_bits b2 * 64 + cont_bits b3, r)
             else None
         | _ \<Rightarrow> None)
      else None)"

lemma decode_char_shorter:
  "decode_char bs = Some (c, r) \<Longrightarrow> length r < length bs"
  by (cases bs) (auto split: if_splits list.splits)

function decode_utf8 :: "byte list \<Rightarrow> py_error + py_str" where
  "decode_utf8 bs =
     (if bs = [] then Inr []
      else case decode_char bs of
             None \<Rightarrow> Inl UnicodeDecodeError
           | Some (c, r) \<Rightarrow>
               (case decode_utf8 r of
                  Inl e \<Rightarrow> Inl e
                | Inr s \<Rightarrow> Inr (c # s)))"
  by pat_completeness auto
termination
  by (relation "measure length") (auto dest: decode_char_shorter)

declare decode_utf8.simps [simp del]

text \<open>
  \<open>int(string[6:7])\<close>. The slice is empty or holds the character at index 6; \<open>int\<close>
  raises \<open>ValueError\<close> for the empty string and for one character that is not a decimal
  digit. Which code points beyond ASCII are decimal digits, and their values, is the
  Unicode character database's matter: the first argument.
\<close>

definition int_slice_6_7 :: "(nat \<Rightarrow> nat option) \<Rightarrow> py_str \<Rightarrow> py_error + int" where
  "int_slice_6_7 unicode_digit s =
     (case take 1 (drop 6 s) of
        [] \<Rightarrow> Inl ValueError
      | c # _ \<Rightarrow>
          if 48 \<le> c \<and> c \<le> 57 then Inr (int c - 48)
          else if c < 128 then Inl ValueError
          else (case unicode_digit c of
                  None \<Rightarrow> Inl ValueError
                | Some k \<Rightarrow> Inr (int k)))"

section \<open>The transport and the other collaborators\<close>

text \<open>
  The client object of the transport, as the tests mock it: what a read of a
  characteristic answers, the service table (\<open>services.get_characteristic\<close>: a handle,
  or nothing), what a write does (raise, or nothing), and the writes made so far (handle,
  data, response flag), oldest first.
\<close>

record connection =
  read_gatt_char :: "uuid \<Rightarrow> py_error + byte list"
  get_characteristic :: "uuid \<Rightarrow> nat option"
  write_outcome :: "nat \<Rightarrow> byte list \<Rightarrow> py_error option"
  written :: "(nat \<times> byte list \<times> bool) list"

definition write_gatt_char ::
  "connection \<Rightarrow> nat \<Rightarrow> byte list \<Rightarrow> bool \<Rightarrow> connection result" where
  "write_gatt_char c handle data response =
     (let c' = c\<lparr>written := written c @ [(handle, data, response)]\<rparr> in
      case write_outcome c handle data of
        None \<Rightarrow> Returned c'
      | Some e \<Rightarrow> Raised e c')"

text \<open>
  The functions that \<open>device.py\<close> imports from modules that are not verified here:
  \<open>establish_connection\<close> (its argument here is \<open>max_attempts\<close>),
  \<open>parse_battery_value\<close>, \<open>time_shift\<close>, \<open>get_timestamp\<close>, and the digit table of
  the Unicode database.
\<close>

record env =
  establish_connection :: "int \<Rightarrow> py_error + connection"
  parse_battery_value :: "obj \<Rightarrow> py_error + int"
  time_shift :: int
  get_timestamp :: int
  unicode_decimal :: "nat \<Rightarrow> nat option"

section \<open>Device\<close>

text \<open>
  The attributes \<open>_connection\<close>, \<open>_model\<close> and \<open>_valve_count\<close> do not exist until
  they are first assigned: \<open>None\<close>, and reading them then is an \<open>AttributeError\<close>.
\<close>

record device =
  d_battery :: int
  d_mac :: string
  d_is_connected :: bool
  d_connection :: "connection option"
  d_model :: "py_str option"
  d_valve_count :: "int option"
  d_valves :: "valve list"

text \<open>\<open>Device.__init__(ble_device)\<close>, with the address of the \<open>ble_device\<close>.\<close>

definition Device_init :: "string \<Rightarrow> device" where
  "Device_init address =
     \<lparr> d_battery = 0, d_mac = address, d_is_connected = False, d_connection = None,
       d_model = None, d_valve_count = None, d_valves = map Valve_init [0, 1, 2, 3] \<rparr>"

text \<open>\<open>Device._read_model()\<close>.\<close>

definition read_model :: "env \<Rightarrow> device \<Rightarrow> device result" where
  "read_model e self =
     (case d_connection self of
        None \<Rightarrow> Raised AttributeError self
      | Some c \<Rightarrow>
          (case read_gatt_char c MANUFACTURER_UUID of
             Inl err \<Rightarrow> Raised err self
           | Inr manufacturer_data \<Rightarrow>
               (case decode_utf8 manufacturer_data of
                  Inl err \<Rightarrow> Raised err self
                | Inr s \<Rightarrow>
                    (let self1 = self\<lparr>d_model := Some (take 5 s)\<rparr> in
                     case int_slice_6_7 (unicode_decimal e) s of
                       Inl err \<Rightarrow> Raised err self1
                     | Inr n \<Rightarrow> Returned (self1\<lparr>d_valve_count := Some n\<rparr>)))))"

text \<open>\<open>Device.disconnected_callback(client)\<close>.\<close>

definition disconnected_callback :: "device \<Rightarrow> device" where
  "disconnected_callback self = self\<lparr>d_is_connected := False\<rparr>"

text \<open>
  \<open>Device.connect(retry_attempts)\<close>, one caller at a time. Both locks are taken and
  released inside the call and the connection lock only under the global lock, so with a
  single caller \<open>_connection_lock.locked()\<close> is false at the test. The handler catches
  \<open>BleakError\<close> only.
\<close>

definition connect_except :: "py_error \<Rightarrow> device \<Rightarrow> device result" where
  "connect_except err self =
     (if err = BleakError then Returned (self\<lparr>d_is_connected := False\<rparr>)
      else Raised err self)"

definition connect :: "env \<Rightarrow> int \<Rightarrow> device \<Rightarrow> device result" where
  "connect e retry_attempts self =
     (if d_is_connected self then Returned self
      else
        (case establish_connection e retry_attempts of
           Inl err \<Rightarrow> connect_except err self
         | Inr c \<Rightarrow>
             (case read_model e (self\<lparr>d_connection := Some c, d_is_connected := True\<rparr>) of
                Raised err self1 \<Rightarrow> connect_except err self1
              | Returned self1 \<Rightarrow> Returned self1)))"

text \<open>
  \<open>Device._read(uuid)\<close>, and \<open>asyncio.gather(..., return_exceptions=True)\<close>, which
  never raises: an exception of an awaitable is its entry of the list.
\<close>

definition read :: "device \<Rightarrow> uuid \<Rightarrow> py_error + byte list" where
  "read self u =
     (case d_connection self of
        None \<Rightarrow> Inl AttributeError
      | Some c \<Rightarrow> read_gatt_char c u)"

definition gather :: "(py_error + byte list) list \<Rightarrow> obj list" where
  "gather rs = map (\<lambda>r. case r of Inl err \<Rightarrow> Exc err | Inr b \<Rightarrow> Bytes b) rs"

text \<open>\<open>list.index\<close> and list subscription.\<close>

fun index :: "uuid list \<Rightarrow> uuid \<Rightarrow> py_error + nat" where
  "index [] u = Inl ValueError"
| "index (x # xs) u =
     (if x = u then Inr 0
      else case index xs u of Inl err \<Rightarrow> Inl err | Inr n \<Rightarrow> Inr (Suc n))"

definition subscript :: "'a list \<Rightarrow> nat \<Rightarrow> py_error + 'a" where
  "subscript xs n = (if n < length xs then Inr (xs ! n) else Inl IndexError)"

text \<open>
  The inner loop of \<open>fetch_state\<close>: every valve updates itself from
  \<open>bytes_array[uuids.index(uuid)]\<close>. A valve that raises keeps what it had assigned.
\<close>

fun update_valves ::
  "int \<Rightarrow> uuid list \<Rightarrow> obj list \<Rightarrow> uuid \<Rightarrow> valve list \<Rightarrow> valve list result" where
  "update_valves shift uuids bytes_array u [] = Returned []"
| "update_valves shift uuids bytes_array u (valve # rest) =
     (case index uuids u of
        Inl err \<Rightarrow> Raised err (valve # rest)
      | Inr some_bytes \<Rightarrow>
          (case subscript bytes_array some_bytes of
             Inl err \<Rightarrow> Raised err (valve # rest)
           | Inr raw \<Rightarrow>
               (case update_state shift valve raw u of
                  Raised err valve' \<Rightarrow> Raised err (valve' # rest)
                | Returned valve' \<Rightarrow>
                    (case update_valves shift uuids bytes_array u rest of
                       Raised err rest' \<Rightarrow> Raised err (valve' # rest')
                     | Returned rest' \<Rightarrow> Returned (valve' # rest')))))"

text \<open>The outer loop of \<open>fetch_state\<close>, over \<open>enumerate(bytes_array)\<close>.\<close>

fun fetch_loop ::
  "env \<Rightarrow> uuid list \<Rightarrow> obj list \<Rightarrow> (nat \<times> obj) list \<Rightarrow> device \<Rightarrow> device result" where
  "fetch_loop e uuids bytes_array [] self = Returned self"
| "fetch_loop e uuids bytes_array ((i, some_bytes) # later) self =
     (case subscript uuids i of
        Inl err \<Rightarrow> Raised err self
      | Inr u \<Rightarrow>
          (case (if u = BATTERY_UUID
                 then (case parse_battery_value e some_bytes of
                         Inl err \<Rightarrow> Raised err self
                       | Inr b \<Rightarrow> Returned (self\<lparr>d_battery := b\<rparr>))
                 else Returned self) of
             Raised err self1 \<Rightarrow> Raised err self1
           | Returned self1 \<Rightarrow>
               (case update_valves (time_shift e) uuids bytes_array u (d_valves self1) of
                  Raised err vs \<Rightarrow> Raised err (self1\<lparr>d_valves := vs\<rparr>)
                | Returned vs \<Rightarrow>
                    fetch_loop e uuids bytes_array later (self1\<lparr>d_valves := vs\<rparr>))))"

text \<open>
  \<open>Device.fetch_state()\<close>. The flag \<open>dropped\<close> says whether the transport calls
  \<open>disconnected_callback\<close> while the call waits for the three reads. The handler
  catches \<open>BleakError\<close> only, and raises it again when the device is still connected.
\<close>

definition fetch_state :: "env \<Rightarrow> bool \<Rightarrow> device \<Rightarrow> device result" where
  "fetch_state e dropped self =
     (case (if \<not> d_is_connected self then connect e 1 self else Returned self) of
        Raised err self1 \<Rightarrow> Raised err self1
      | Returned self1 \<Rightarrow>
          (let uuids = [BATTERY_UUID, VALVE_MANUAL_SETTINGS_UUID, VALVE_MANUAL_STATES_UUID];
               bytes_array = gather (map (read self1) uuids);
               self2 = (if dropped then disconnected_callback self1 else self1)
           in case fetch_loop e uuids bytes_array (enumerate 0 bytes_array) self2 of
                Raised err self3 \<Rightarrow>
                  (if err = BleakError
                   then (if d_is_connected self3 then Raised err self3 else Returned self3)
                   else Raised err self3)
              | Returned self3 \<Rightarrow> Returned self3))"

text \<open>
  \<open>Device.push_state()\<close>. The payload of the settings write is built before the write
  is called, so a valve that cannot be packed raises before anything is written.
\<close>

definition settings_payload :: "device \<Rightarrow> py_error + byte list" where
  "settings_payload self =
     (case subscript (d_valves self) 0 of Inl err \<Rightarrow> Inl err | Inr v0 \<Rightarrow>
      case manual_setting_bytes v0 of Inl err \<Rightarrow> Inl err | Inr p0 \<Rightarrow>
      case subscript (d_valves self) 1 of Inl err \<Rightarrow> Inl err | Inr v1 \<Rightarrow>
      case manual_setting_bytes v1 of Inl err \<Rightarrow> Inl err | Inr p1 \<Rightarrow>
      case subscript (d_valves self) 2 of Inl err \<Rightarrow> Inl err | Inr v2 \<Rightarrow>
      case manual_setting_bytes v2 of Inl err \<Rightarrow> Inl err | Inr p2 \<Rightarrow>
      case subscript (d_valves self) 3 of Inl err \<Rightarrow> Inl err | Inr v3 \<Rightarrow>
      case manual_setting_bytes v3 of Inl err \<Rightarrow> Inl err | Inr p3 \<Rightarrow>
        Inr (p0 @ p1 @ p2 @ p3))"

definition device_write :: "device \<Rightarrow> connection \<Rightarrow> nat \<Rightarrow> byte list \<Rightarrow> device result" where
  "device_write self c handle data =
     (case write_gatt_char c handle data True of
        Raised err c' \<Rightarrow> Raised err (self\<lparr>d_connection := Some c'\<rparr>)
      | Returned c' \<Rightarrow> Returned (self\<lparr>d_connection := Some c'\<rparr>))"

definition push_settings :: "device \<Rightarrow> device result" where
  "push_settings self =
     (case d_connection self of
        None \<Rightarrow> Raised AttributeError self
      | Some c \<Rightarrow>
          (case get_characteristic c VALVE_MANUAL_SETTINGS_UUID of
             None \<Rightarrow> Returned self
           | Some on_off \<Rightarrow>
               (case settings_payload self of
                  Inl err \<Rightarrow> Raised err self
                | Inr data \<Rightarrow> device_write self c on_off data)))"

definition push_updated_at :: "env \<Rightarrow> device \<Rightarrow> device result" where
  "push_updated_at e self =
     (case d_connection self of
        None \<Rightarrow> Raised AttributeError self
      | Some c \<Rightarrow>
          (case get_characteristic c UPDATED_AT_UUID of
             None \<Rightarrow> Returned self
           | Some updated_at \<Rightarrow>
               (case pack_I (get_timestamp e) of
                  Inl err \<Rightarrow> Raised err self
                | Inr data \<Rightarrow> device_write self c updated_at data)))"

definition push_state :: "env \<Rightarrow> device \<Rightarrow> device result" where
  "push_state e self =
     (case (if \<not> d_is_connected self then connect e 1 self else Returned self) of
        Raised err self1 \<Rightarrow> Raised err self1
      | Returned self1 \<Rightarrow>
          (case push_settings self1 of
             Raised err self2 \<Rightarrow> Raised err self2
           | Returned self2 \<Rightarrow> push_updated_at e self2))"

text \<open>
  The properties of a device. A property whose body ends without \<open>return\<close> yields
  \<open>None\<close>.
\<close>

definition model :: "device \<Rightarrow> py_error + py_str" where
  "model self = (case d_model self of None \<Rightarrow> Inl AttributeError | Some m \<Rightarrow> Inr m)"

definition valve_count :: "device \<Rightarrow> py_error + int" where
  "valve_count self =
     (case d_valve_count self of None \<Rightarrow> Inl AttributeError | Some n \<Rightarrow> Inr n)"

definition zone1 :: "device \<Rightarrow> py_error + valve option" where
  "zone1 self =
     (case subscript (d_valves self) 0 of Inl err \<Rightarrow> Inl err | Inr v \<Rightarrow> Inr (Some v))"

definition zone2 :: "device \<Rightarrow> py_error + valve option" where
  "zone2 self =
     (case d_valve_count self of
        None \<Rightarrow> Inl AttributeError
      | Some n \<Rightarrow>
          if n > 1
          then (case subscript (d_valves self) 1 of Inl err \<Rightarrow> Inl err | Inr v \<Rightarrow> Inr (Some v))
          else Inr None)"

definition zone3 :: "device \<Rightarrow> py_error + valve option" where
  "zone3 self =
     (case d_valve_count self of
        None \<Rightarrow> Inl AttributeError
      | Some n \<Rightarrow>
          if n > 2
          then (case subscript (d_valves self) 2 of Inl err \<Rightarrow> Inl err | Inr v \<Rightarrow> Inr (Some v))
          else Inr None)"

definition zone4 :: "device \<Rightarrow> py_error + valve option" where
  "zone4 self =
     (case d_valve_count self of
        None \<Rightarrow> Inl AttributeError
      | Some n \<Rightarrow>
          if n > 2
          then (case subscript (d_valves self) 3 of Inl err \<Rightarrow> Inl err | Inr v \<Rightarrow> Inr (Some v))
          else Inr None)"

text \<open>\<open>Device.__getitem__(key)\<close>.\<close>

definition getitem :: "device \<Rightarrow> py_str \<Rightarrow> py_error + valve option" where
  "getitem self key =
     (if key = str_lit ''zone1'' then zone1 self
      else if key = str_lit ''zone2'' then zone2 self
      else if key = str_lit ''zone3'' then zone3 self
      else if key = str_lit ''zone4'' then zone4 self
      else Inr None)"

text \<open>The state an operation leaves its object in, whether it returned or raised.\<close>

definition state_of :: "'a result \<Rightarrow> 'a" where
  "state_of r = (case r of Returned s \<Rightarrow> s | Raised _ s \<Rightarrow> s)"

section \<open>Fixtures of the test suite\<close>

text \<open>
  The objects that \<open>tests/test_device_valves.py\<close> builds. \<open>client_mock\<close> is the
  mocked client: it answers reads and looks characteristics up as it is told, its writes
  succeed, and nothing has been written yet. \<open>test_env\<close> patches
  \<open>establish_connection\<close> to return that client; the battery bytes \<open>02 85\<close> parse to
  30 as in \<open>test_fetch\<close>.
\<close>

definition client_mock ::
  "(uuid \<Rightarrow> py_error + byte list) \<Rightarrow> (uuid \<Rightarrow> nat option) \<Rightarrow> connection" where
  "client_mock reads table =
     \<lparr> read_gatt_char = reads, get_characteristic = table,
       write_outcome = (\<lambda>handle data. None), written = [] \<rparr>"

definition test_env :: "connection \<Rightarrow> env" where
  "test_env c =
     \<lparr> establish_connection = (\<lambda>max_attempts. Inr c),
       parse_battery_value = (\<lambda>b. if b = Bytes [0x02, 0x85] then Inr 30 else Inl TypeError),
       time_shift = 0, get_timestamp = 1667557200, unicode_decimal = (\<lambda>c. None) \<rparr>"

text \<open>
  The manufacturer data of \<open>test_2_valve_device\<close>; a read that the test does not stub
  gives \<open>None\<close>, and awaiting it is a \<open>TypeError\<close>.
\<close>

definition two_valve_reads :: "uuid \<Rightarrow> py_error + byte list" where
  "two_valve_reads u =
     (if u = MANUFACTURER_UUID then Inr (map of_char ''111110200'') else Inl TypeError)"

text \<open>
  The device of \<open>test_1_valve_has_all_bytes\<close> after its two assignments, connected, with
  a given service table; \<open>settings_table\<close> knows the settings characteristic only.
\<close>

definition settings_table :: "uuid \<Rightarrow> nat option" where
  "settings_table u = (if u = VALVE_MANUAL_SETTINGS_UUID then Some 7 else None)"

definition one_valve_device :: "(uuid \<Rightarrow> nat option) \<Rightarrow> device" where
  "one_valve_device table =
     \<lparr> d_battery = 0, d_mac = ''AA'', d_is_connected = True,
       d_connection = Some (client_mock two_valve_reads table),
       d_model = Some (str_lit ''11111''), d_valve_count = Some 1,
       d_valves = [(Valve_init 0)\<lparr>v_is_watering := True, v_manual_minutes := 10\<rparr>,
                   Valve_init 1, Valve_init 2, Valve_init 3] \<rparr>"

text \<open>
  A client whose read of the valve settings raises \<open>BleakError\<close>, while the
  manufacturer data, the battery and the valve states are read.
\<close>

definition failing_reads :: "uuid \<Rightarrow> py_error + byte list" where
  "failing_reads u =
     (if u = MANUFACTURER_UUID then Inr (map of_char ''111110400'')
      else if u = BATTERY_UUID then Inr [0x02, 0x85]
      else if u = VALVE_MANUAL_STATES_UUID then Inr (replicate 20 0)
      else Inl BleakError)"

section \<open>Facts about windows of bytes\<close>

lemma take_drop_window1:
  "n < length xs \<Longrightarrow> take 1 (drop n xs) = [xs ! n]"
  by (simp add: take_Suc_conv_app_nth)

lemma take_drop_window2:
  "n + 2 \<le> length xs \<Longrightarrow> take 2 (drop n xs) = [xs ! n, xs ! (n + 1)]"
  by (simp add: numeral_2_eq_2 take_Suc_conv_app_nth)

lemma take_drop_window4:
  "n + 4 \<le> length xs \<Longrightarrow>
   take 4 (drop n xs) = [xs ! n, xs ! (n + 1), xs ! (n + 2), xs ! (n + 3)]"
  by (simp add: eval_nat_numeral take_Suc_conv_app_nth)

lemma be_uint2: "be_uint [a, b] = uint a * 256 + uint b"
  by (simp add: be_uint_def)

lemma be_uint4:
  "be_uint [a, b, c, d] = uint a * 16777216 + uint b * 65536 + uint c * 256 + uint d"
  by (simp add: be_uint_def)

lemma uint_byte_bound: "uint (b :: byte) < 256"
  using uint_bounded [of b] by simp

lemma pack_H_be_uint: "pack_H (be_uint [a, b]) = Inr [a, b]"
proof -
  have a: "0 \<le> uint a" "uint a < 256" and b: "0 \<le> uint b" "uint b < 256"
    using uint_byte_bound by simp_all
  have d: "(uint a * 256 + uint b) div 256 = uint a" using b by simp
  have m: "(uint a * 256 + uint b) mod 256 = uint b" using b by simp
  have r: "0 \<le> uint a * 256 + uint b" "uint a * 256 + uint b \<le> 65535" using a b by simp_all
  have w: "word_of_int (uint a) = a" "word_of_int (uint b) = b" by simp_all
  show ?thesis unfolding be_uint2 pack_H_def d m using r w by simp
qed

lemma pack_H_value:
  assumes "0 \<le> n" and "n \<le> 65535"
  shows "\<exists>hi lo. pack_H n = Inr [hi, lo] \<and> uint hi * 256 + uint lo = n"
proof -
  have d: "0 \<le> n div 256" "n div 256 < 256" using assms by simp_all
  have hi: "uint (word_of_int (n div 256) :: byte) = n div 256"
    using d by (simp add: uint_word_of_int)
  have lo: "uint (word_of_int (n mod 256) :: byte) = n mod 256"
    by (simp add: uint_word_of_int)
  have "n div 256 * 256 + n mod 256 = n" by simp
  then show ?thesis
    using assms hi lo by (simp add: pack_H_def)
qed

lemma unpack_from_in_range:
  "0 \<le> off \<Longrightarrow> off + int sz \<le> int (length buf) \<Longrightarrow>
   unpack_from sz (Bytes buf) off = Inr (take sz (drop (nat off) buf))"
  by (simp add: unpack_from_def Let_def)

lemma unpack_from_short:
  "0 \<le> off \<Longrightarrow> int (length buf) < off + int sz \<Longrightarrow>
   unpack_from sz (Bytes buf) off = Inl StructError"
  by (simp add: unpack_from_def Let_def)

lemma unpack_from_I_in_range:
  assumes "0 \<le> off" and "off + 4 \<le> int (length buf)"
  shows "unpack_from_I (Bytes buf) off =
         Inr (uint (buf ! nat off) * 16777216 + uint (buf ! (nat off + 1)) * 65536 +
              uint (buf ! (nat off + 2)) * 256 + uint (buf ! (nat off + 3)))"
proof -
  have "nat off + 4 \<le> length buf" using assms by linarith
  then have w: "take 4 (drop (nat off) buf) =
      [buf ! nat off, buf ! (nat off + 1), buf ! (nat off + 2), buf ! (nat off + 3)]"
    by (rule take_drop_window4)
  have "unpack_from 4 (Bytes buf) off = Inr (take 4 (drop (nat off) buf))"
    using assms by (intro unpack_from_in_range) simp_all
  then show ?thesis
    unfolding unpack_from_I_def w by (simp add: be_uint4)
qed

lemma update_state_settings_slice:
  assumes "0 \<le> v_id v" and "length pre = nat (5 * v_id v)"
  shows "update_state ts v (Bytes (pre @ [b0, b1, b2, b3, b4] @ suf)) VALVE_MANUAL_SETTINGS_UUID =
         Returned (v\<lparr>v_is_watering := (b0 \<noteq> 0), v_manual_minutes := uint b1 * 256 + uint b2\<rparr>)"
proof -
  let ?buf = "pre @ [b0, b1, b2, b3, b4] @ suf"
  have o: "nat (v_id v * 5) = length pre" "nat (v_id v * 5 + 1) = length pre + 1"
    using assms by (simp_all add: mult.commute nat_add_distrib)
  have b: "unpack_from 1 (Bytes ?buf) (v_id v * 5) = Inr [b0]"
    using assms by (subst unpack_from_in_range) (simp_all add: o)
  have h: "unpack_from 2 (Bytes ?buf) (v_id v * 5 + 1) = Inr [b1, b2]"
    using assms by (subst unpack_from_in_range) (simp_all add: o)
  have b': "unpack_from_bool (Bytes ?buf) (v_id v * 5) = Inr (b0 \<noteq> 0)"
    unfolding unpack_from_bool_def b by simp
  have h': "unpack_from_H (Bytes ?buf) (v_id v * 5 + 1) = Inr (uint b1 * 256 + uint b2)"
    unfolding unpack_from_H_def h by (simp add: be_uint2)
  show ?thesis
    unfolding update_state_def Let_def b' h' by simp
qed

section \<open>Valve: decoding and encoding\<close>

text \<open>
  Claim C1, as amended. A valve with index \<open>i \<ge> 0\<close> decodes the settings slice at
  offset \<open>5 * i\<close> of a buffer without error, and encoding the valve afterwards gives
  the boolean byte normalised to 0 or 1 followed by the canonical minutes (bytes 1-2 of
  the slice) in both positions. Hence a slice whose first byte is 0 or 1 and whose
  duplicate field equals the canonical field is reproduced byte for byte.
\<close>

theorem settings_decode_encode:
  assumes "0 \<le> v_id v" and "length pre = nat (5 * v_id v)"
  shows "\<exists>v' out.
           update_state ts v (Bytes (pre @ [b0, b1, b2, b3, b4] @ suf)) VALVE_MANUAL_SETTINGS_UUID
             = Returned v' \<and>
           manual_setting_bytes v' = Inr out \<and>
           out = [if b0 = 0 then 0 else 1, b1, b2, b1, b2] \<and>
           ((b0 = 0 \<or> b0 = 1) \<and> b3 = b1 \<and> b4 = b2 \<longrightarrow> out = [b0, b1, b2, b3, b4])"
proof -
  have "manual_setting_bytes
          (v\<lparr>v_is_watering := (b0 \<noteq> 0), v_manual_minutes := uint b1 * 256 + uint b2\<rparr>)
        = Inr [if b0 = 0 then 0 else 1, b1, b2, b1, b2]"
    using pack_H_be_uint [of b1 b2]
    by (simp add: manual_setting_bytes_def be_uint2 pack_bool_def)
  then show ?thesis
    using update_state_settings_slice [OF assms, of ts b0 b1 b2 b3 b4 suf] by auto
qed

theorem settings_decode_encode_witness:
  "\<exists>v' out.
     update_state 0 (Valve_init 0) (Bytes [1, 0, 5, 0, 5]) VALVE_MANUAL_SETTINGS_UUID = Returned v' \<and>
     manual_setting_bytes v' = Inr out \<and> out = [1, 0, 5, 0, 5]"
  using settings_decode_encode [of "Valve_init 0" "[]" 0 1 0 5 0 5 "[]"]
  by (simp add: Valve_init_def)

text \<open>
  The slice \<open>02 00 05 00 05\<close> has equal canonical and duplicate fields, yet it comes
  back as \<open>01 00 05 00 05\<close>: any non-zero first byte decodes to true, and true is
  written as 1.
\<close>

theorem settings_round_trip_counterexample:
  "update_state 0 (Valve_init 0) (Bytes [2, 0, 5, 0, 5]) VALVE_MANUAL_SETTINGS_UUID =
     Returned \<lparr>v_id = 0, v_is_watering = True, v_manual_minutes = 5, v_end_time = 0\<rparr> \<and>
   manual_setting_bytes \<lparr>v_id = 0, v_is_watering = True, v_manual_minutes = 5, v_end_time = 0\<rparr> =
     Inr [1, 0, 5, 0, 5] \<and>
   [1, 0, 5, 0, 5] \<noteq> [2, 0, 5, 0, 5 :: byte]"
  by (simp add: update_state_def Valve_init_def unpack_from_bool_def unpack_from_H_def
      unpack_from_def be_uint_def manual_setting_bytes_def pack_H_def pack_bool_def)

text \<open>
  Claim C2. For a valve with index \<open>i \<ge> 0\<close> and a buffer of at least \<open>5 * i + 5\<close>
  bytes, \<open>update_state\<close> with the states UUID returns, and \<open>watering_end_time\<close>
  becomes 0 when the big-endian unsigned 32-bit integer \<open>x\<close> at offset \<open>5 * i + 1\<close>
  is 0 and \<open>x - time_shift()\<close> otherwise; no other field changes, and the byte at
  offset \<open>5 * i\<close> has no influence on the outcome.
\<close>

theorem update_state_states:
  assumes "0 \<le> v_id v" and "5 * v_id v + 5 \<le> int (length buf)"
  shows "let k = nat (5 * v_id v);
             x = uint (buf ! (k + 1)) * 16777216 + uint (buf ! (k + 2)) * 65536 +
                 uint (buf ! (k + 3)) * 256 + uint (buf ! (k + 4))
         in update_state ts v (Bytes buf) VALVE_MANUAL_STATES_UUID =
              Returned (v\<lparr>v_end_time := (if x = 0 then 0 else x - ts)\<rparr>) \<and>
            watering_end_time (v\<lparr>v_end_time := (if x = 0 then 0 else x - ts)\<rparr>) =
              (if x = 0 then 0 else x - ts) \<and>
            (\<forall>b. update_state ts v (Bytes (buf[k := b])) VALVE_MANUAL_STATES_UUID =
                 update_state ts v (Bytes buf) VALVE_MANUAL_STATES_UUID)"
proof -
  define k where "k = nat (5 * v_id v)"
  have o: "nat (v_id v * 5 + 1) = k + 1"
    using assms by (simp add: k_def mult.commute nat_add_distrib)
  have idx: "k + 1 + 1 = k + 2" "k + 1 + 2 = k + 3" "k + 1 + 3 = k + 4"
    by simp_all
  have r: "0 \<le> v_id v * 5 + 1" "v_id v * 5 + 1 + 4 \<le> int (length buf)"
    using assms by simp_all
  have u: "unpack_from_I (Bytes buf) (v_id v * 5 + 1) =
      Inr (uint (buf ! (k + 1)) * 16777216 + uint (buf ! (k + 2)) * 65536 +
           uint (buf ! (k + 3)) * 256 + uint (buf ! (k + 4)))"
    by (rule unpack_from_I_in_range [OF r, unfolded o idx])
  have u': "unpack_from_I (Bytes (buf[k := b])) (v_id v * 5 + 1) =
      unpack_from_I (Bytes buf) (v_id v * 5 + 1)" for b
  proof -
    have r': "v_id v * 5 + 1 + 4 \<le> int (length (buf[k := b]))" using r by simp
    have "k + 1 \<noteq> k" "k + 2 \<noteq> k" "k + 3 \<noteq> k" "k + 4 \<noteq> k" by simp_all
    then show ?thesis
      unfolding u unpack_from_I_in_range [OF r(1) r', unfolded o idx]
      by (simp only: nth_list_update_neq not_sym)
  qed
  have main: "update_state ts v (Bytes buf) VALVE_MANUAL_STATES_UUID =
      Returned (v\<lparr>v_end_time :=
        (if uint (buf ! (k + 1)) * 16777216 + uint (buf ! (k + 2)) * 65536 +
            uint (buf ! (k + 3)) * 256 + uint (buf ! (k + 4)) = 0 then 0
         else uint (buf ! (k + 1)) * 16777216 + uint (buf ! (k + 2)) * 65536 +
            uint (buf ! (k + 3)) * 256 + uint (buf ! (k + 4)) - ts)\<rparr>)"
    unfolding update_state_def Let_def u by simp
  have ign: "update_state ts v (Bytes (buf[k := b])) VALVE_MANUAL_STATES_UUID =
      update_state ts v (Bytes buf) VALVE_MANUAL_STATES_UUID" for b
    unfolding update_state_def Let_def u' by simp
  show ?thesis
    unfolding Let_def k_def [symmetric] using main ign
    by (simp add: watering_end_time_def)
qed

theorem update_state_states_witness:
  "update_state 100 (Valve_init 1) (Bytes [1, 0, 0, 0, 0, 2, 0, 0, 1, 44]) VALVE_MANUAL_STATES_UUID =
     Returned ((Valve_init 1)\<lparr>v_end_time := 200\<rparr>) \<and>
   update_state 100 (Valve_init 0) (Bytes [1, 0, 0, 0, 0, 2, 0, 0, 1, 44]) VALVE_MANUAL_STATES_UUID =
     Returned ((Valve_init 0)\<lparr>v_end_time := 0\<rparr>)"
  using update_state_states [of "Valve_init 1" "[1, 0, 0, 0, 0, 2, 0, 0, 1, 44]" 100]
    update_state_states [of "Valve_init 0" "[1, 0, 0, 0, 0, 2, 0, 0, 1, 44]" 100]
  by (simp add: Valve_init_def Let_def)

text \<open>
  Claim C3, as amended. For a valve whose \<open>manual_watering_minutes\<close> lies in
  \<open>0 .. 65535\<close>, \<open>_manual_setting_bytes\<close> returns exactly 5 bytes: the boolean byte,
  then the minutes as big-endian 16 bits, twice. A valve with \<open>is_watering = True\<close> and
  10 minutes encodes to \<open>01 00 0A 00 0A\<close>.
\<close>

theorem manual_setting_bytes_layout:
  "(0 \<le> manual_watering_minutes v \<and> manual_watering_minutes v \<le> 65535 \<longrightarrow>
     (\<exists>bs. manual_setting_bytes v = Inr bs \<and> length bs = 5 \<and>
        bs ! 0 = (if is_watering v then 1 else 0) \<and>
        uint (bs ! 1) * 256 + uint (bs ! 2) = manual_watering_minutes v \<and>
        uint (bs ! 3) * 256 + uint (bs ! 4) = manual_watering_minutes v)) \<and>
   manual_setting_bytes ((Valve_init i)\<lparr>v_is_watering := True, v_manual_minutes := 10\<rparr>) =
     Inr [0x01, 0x00, 0x0A, 0x00, 0x0A]"
proof (intro conjI impI)
  assume "0 \<le> manual_watering_minutes v \<and> manual_watering_minutes v \<le> 65535"
  then obtain hi lo where p: "pack_H (v_manual_minutes v) = Inr [hi, lo]"
    and e: "uint hi * 256 + uint lo = v_manual_minutes v"
    using pack_H_value [of "v_manual_minutes v"]
    by (auto simp: manual_watering_minutes_def)
  have "manual_setting_bytes v = Inr [if v_is_watering v then 1 else 0, hi, lo, hi, lo]"
    by (simp add: manual_setting_bytes_def p pack_bool_def)
  then show "\<exists>bs. manual_setting_bytes v = Inr bs \<and> length bs = 5 \<and>
        bs ! 0 = (if is_watering v then 1 else 0) \<and>
        uint (bs ! 1) * 256 + uint (bs ! 2) = manual_watering_minutes v \<and>
        uint (bs ! 3) * 256 + uint (bs ! 4) = manual_watering_minutes v"
    using e by (simp add: is_watering_def manual_watering_minutes_def)
next
  show "manual_setting_bytes ((Valve_init i)\<lparr>v_is_watering := True, v_manual_minutes := 10\<rparr>) =
     Inr [0x01, 0x00, 0x0A, 0x00, 0x0A]"
    by (simp add: manual_setting_bytes_def pack_H_def pack_bool_def)
qed

theorem manual_setting_bytes_layout_witness:
  "\<exists>bs. manual_setting_bytes (Valve_init 2) = Inr bs \<and> length bs = 5 \<and> bs ! 0 = 0 \<and>
        uint (bs ! 1) * 256 + uint (bs ! 2) = 20 \<and> uint (bs ! 3) * 256 + uint (bs ! 4) = 20"
  using manual_setting_bytes_layout [of "Valve_init 2" 0]
  by (simp add: Valve_init_def is_watering_def manual_watering_minutes_def)

text \<open>
  The setter of \<open>manual_watering_minutes\<close> accepts any integer; with 65536 minutes
  the packing raises \<open>struct.error\<close> and no bytes are returned.
\<close>

theorem manual_setting_bytes_counterexample:
  "manual_setting_bytes ((Valve_init 0)\<lparr>v_manual_minutes := 65536\<rparr>) = Inl StructError"
  by (simp add: manual_setting_bytes_def pack_H_def)

text \<open>
  Claim C4, as amended. For a valve with index \<open>i \<ge> 0\<close> and a buffer shorter than
  \<open>5 * i + 3\<close> bytes, \<open>update_state\<close> with the settings UUID raises \<open>struct.error\<close>
  and leaves \<open>manual_watering_minutes\<close> as it was; when the buffer is shorter than
  \<open>5 * i + 1\<close> bytes, \<open>is_watering\<close> is left as it was too.
\<close>

theorem update_state_settings_short:
  assumes "0 \<le> v_id v" and "int (length buf) < 5 * v_id v + 3"
  shows "\<exists>v'. update_state ts v (Bytes buf) VALVE_MANUAL_SETTINGS_UUID = Raised StructError v' \<and>
           manual_watering_minutes v' = manual_watering_minutes v \<and>
           (int (length buf) < 5 * v_id v + 1 \<longrightarrow> is_watering v' = is_watering v)"
proof (cases "int (length buf) < 5 * v_id v + 1")
  case True
  then have "unpack_from 1 (Bytes buf) (v_id v * 5) = Inl StructError"
    using assms by (intro unpack_from_short) simp_all
  then have "update_state ts v (Bytes buf) VALVE_MANUAL_SETTINGS_UUID = Raised StructError v"
    by (simp add: update_state_def unpack_from_bool_def)
  then show ?thesis by simp
next
  case False
  then have "unpack_from 1 (Bytes buf) (v_id v * 5) = Inr (take 1 (drop (nat (v_id v * 5)) buf))"
    using assms by (intro unpack_from_in_range) simp_all
  then obtain w where b: "unpack_from_bool (Bytes buf) (v_id v * 5) = Inr w"
    by (simp add: unpack_from_bool_def)
  have "unpack_from 2 (Bytes buf) (v_id v * 5 + 1) = Inl StructError"
    using assms by (intro unpack_from_short) simp_all
  then have h: "unpack_from_H (Bytes buf) (v_id v * 5 + 1) = Inl StructError"
    by (simp add: unpack_from_H_def)
  have "update_state ts v (Bytes buf) VALVE_MANUAL_SETTINGS_UUID =
          Raised StructError (v\<lparr>v_is_watering := w\<rparr>)"
    unfolding update_state_def Let_def b h by simp
  then show ?thesis using False by (simp add: manual_watering_minutes_def)
qed

theorem update_state_settings_short_witness:
  "\<exists>v'. update_state 0 (Valve_init 1) (Bytes [1, 0, 7, 0, 7]) VALVE_MANUAL_SETTINGS_UUID =
          Raised StructError v' \<and>
        manual_watering_minutes v' = 20 \<and> is_watering v' = False"
  using update_state_settings_short [of "Valve_init 1" "[1, 0, 7, 0, 7]" 0]
  by (simp add: Valve_init_def manual_watering_minutes_def is_watering_def)

text \<open>
  The duplicate field is never read: a buffer of 4 bytes, one byte short of a slice,
  is decoded by valve 0 without any error, and both fields change.
\<close>

theorem update_state_settings_short_counterexample:
  "update_state 0 (Valve_init 0) (Bytes [1, 0, 7, 0]) VALVE_MANUAL_SETTINGS_UUID =
     Returned \<lparr>v_id = 0, v_is_watering = True, v_manual_minutes = 7, v_end_time = 0\<rparr>"
  by (simp add: update_state_def Valve_init_def unpack_from_bool_def unpack_from_H_def
      unpack_from_def be_uint_def)

section \<open>Device: reading the model\<close>

lemma decode_utf8_Nil: "decode_utf8 [] = Inr []"
  by (subst decode_utf8.simps) simp

lemma decode_utf8_ascii_Cons:
  "b < 0x80 \<Longrightarrow> decode_utf8 (b # bs) =
     (case decode_utf8 bs of Inl e \<Rightarrow> Inl e | Inr s \<Rightarrow> Inr (unat b # s))"
  by (subst decode_utf8.simps) simp

lemma decode_utf8_ascii:
  "\<forall>b\<in>set bs. b < 0x80 \<Longrightarrow> decode_utf8 bs = Inr (map unat bs)"
  by (induction bs) (simp_all add: decode_utf8_Nil decode_utf8_ascii_Cons)

lemma int_slice_6_7_ascii:
  assumes "\<forall>b\<in>set (p :: byte list). b < 0x80"
    and "int_slice_6_7 ud (map unat p) = Inr n"
  shows "6 < length p \<and> 48 \<le> unat (p ! 6) \<and> unat (p ! 6) \<le> 57 \<and> n = int (unat (p ! 6)) - 48"
proof (cases "6 < length p")
  case False
  then have "drop 6 (map unat p) = []" by simp
  with assms(2) show ?thesis by (simp add: int_slice_6_7_def)
next
  case True
  then have t: "take 1 (drop 6 (map unat p)) = [unat (p ! 6)]"
    using take_drop_window1 [of 6 "map unat p"] by simp
  have "p ! 6 \<in> set p" using True by simp
  then have "p ! 6 < 0x80" using assms(1) by blast
  then have "unat (p ! 6) < 128" by (simp add: word_less_nat_alt)
  with assms(2) True show ?thesis
    unfolding int_slice_6_7_def t by (simp split: if_splits)
qed

lemma int_slice_6_7_error: "int_slice_6_7 ud s = Inl err \<Longrightarrow> err = ValueError"
  by (auto simp: int_slice_6_7_def split: list.splits if_splits option.splits)

lemma connect_fresh:
  assumes "\<not> d_is_connected d" and "establish_connection e n = Inr c"
    and "read_gatt_char c MANUFACTURER_UUID = Inr p" and "decode_utf8 p = Inr s"
  shows "connect e n d =
    (case int_slice_6_7 (unicode_decimal e) s of
       Inl err \<Rightarrow> Raised err (d\<lparr>d_connection := Some c, d_is_connected := True, d_model := Some (take 5 s)\<rparr>)
     | Inr k \<Rightarrow> Returned (d\<lparr>d_connection := Some c, d_is_connected := True,
                             d_model := Some (take 5 s), d_valve_count := Some k\<rparr>))"
  using assms
  by (auto simp: connect_def read_model_def connect_except_def split: sum.splits
      dest: int_slice_6_7_error)

text \<open>
  Claim C6. Let \<open>connect\<close> on a device that was not connected return with the device
  connected, the manufacturer characteristic having answered the ASCII payload \<open>p\<close>.
  Then \<open>model\<close> is the first 5 characters of \<open>p\<close> (its bytes 0-4), byte 6 of \<open>p\<close>
  is a decimal digit, and \<open>valve_count\<close> is the value of that digit. In particular the
  payload \<open>111110400\<close> gives the model \<open>11111\<close> and 4 valves.
\<close>

theorem connect_reads_model:
  "(\<not> d_is_connected d \<and> establish_connection e n = Inr c \<and>
    read_gatt_char c MANUFACTURER_UUID = Inr p \<and> (\<forall>b\<in>set p. b < 0x80) \<and>
    connect e n d = Returned d' \<and> d_is_connected d' \<longrightarrow>
      model d' = Inr (map unat (take 5 p)) \<and> 6 < length p \<and>
      48 \<le> unat (p ! 6) \<and> unat (p ! 6) \<le> 57 \<and>
      valve_count d' = Inr (int (unat (p ! 6)) - 48)) \<and>
   (\<not> d_is_connected d \<and> establish_connection e n = Inr c \<and>
    read_gatt_char c MANUFACTURER_UUID = Inr (map of_char ''111110400'') \<longrightarrow>
      (\<exists>d'. connect e n d = Returned d' \<and> d_is_connected d' \<and>
            model d' = Inr (str_lit ''11111'') \<and> valve_count d' = Inr 4))"
proof (rule conjI; rule impI)
  assume a: "\<not> d_is_connected d \<and> establish_connection e n = Inr c \<and>
    read_gatt_char c MANUFACTURER_UUID = Inr p \<and> (\<forall>b\<in>set p. b < 0x80) \<and>
    connect e n d = Returned d' \<and> d_is_connected d'"
  then have dec: "decode_utf8 p = Inr (map unat p)" by (simp add: decode_utf8_ascii)
  have c: "connect e n d =
    (case int_slice_6_7 (unicode_decimal e) (map unat p) of
       Inl err \<Rightarrow> Raised err (d\<lparr>d_connection := Some c, d_is_connected := True,
                               d_model := Some (take 5 (map unat p))\<rparr>)
     | Inr k \<Rightarrow> Returned (d\<lparr>d_connection := Some c, d_is_connected := True,
                             d_model := Some (take 5 (map unat p)), d_valve_count := Some k\<rparr>))"
    using a dec by (intro connect_fresh) simp_all
  from a c obtain k where k: "int_slice_6_7 (unicode_decimal e) (map unat p) = Inr k"
    and d': "d' = d\<lparr>d_connection := Some c, d_is_connected := True,
                    d_model := Some (take 5 (map unat p)), d_valve_count := Some k\<rparr>"
    by (auto split: sum.splits)
  from a k have "6 < length p \<and> 48 \<le> unat (p ! 6) \<and> unat (p ! 6) \<le> 57 \<and>
      k = int (unat (p ! 6)) - 48"
    using int_slice_6_7_ascii [of p "unicode_decimal e" k] by simp
  then show "model d' = Inr (map unat (take 5 p)) \<and> 6 < length p \<and>
      48 \<le> unat (p ! 6) \<and> unat (p ! 6) \<le> 57 \<and>
      valve_count d' = Inr (int (unat (p ! 6)) - 48)"
    by (simp add: d' model_def valve_count_def take_map)
next
  assume a: "\<not> d_is_connected d \<and> establish_connection e n = Inr c \<and>
    read_gatt_char c MANUFACTURER_UUID = Inr (map of_char ''111110400'')"
  have dec: "decode_utf8 (map of_char ''111110400'') = Inr (str_lit ''111110400'')"
    by (subst decode_utf8_ascii) (simp_all add: str_lit_def)
  have "connect e n d =
    (case int_slice_6_7 (unicode_decimal e) (str_lit ''111110400'') of
       Inl err \<Rightarrow> Raised err (d\<lparr>d_connection := Some c, d_is_connected := True,
                               d_model := Some (take 5 (str_lit ''111110400''))\<rparr>)
     | Inr k \<Rightarrow> Returned (d\<lparr>d_connection := Some c, d_is_connected := True,
                  d_model := Some (take 5 (str_lit ''111110400'')), d_valve_count := Some k\<rparr>))"
    using a dec by (intro connect_fresh) simp_all
  then show "\<exists>d'. connect e n d = Returned d' \<and> d_is_connected d' \<and>
            model d' = Inr (str_lit ''11111'') \<and> valve_count d' = Inr 4"
    by (simp add: int_slice_6_7_def str_lit_def model_def valve_count_def)
qed

theorem connect_reads_model_witness:
  "connect (test_env (client_mock two_valve_reads Map.empty)) 4 (Device_init ''AA'') =
     Returned ((Device_init ''AA'')
       \<lparr>d_connection := Some (client_mock two_valve_reads Map.empty), d_is_connected := True,
        d_model := Some (str_lit ''11111''), d_valve_count := Some 2\<rparr>) \<and>
   model ((Device_init ''AA'')
       \<lparr>d_connection := Some (client_mock two_valve_reads Map.empty), d_is_connected := True,
        d_model := Some (str_lit ''11111''), d_valve_count := Some 2\<rparr>) = Inr (str_lit ''11111'') \<and>
   valve_count ((Device_init ''AA'')
       \<lparr>d_connection := Some (client_mock two_valve_reads Map.empty), d_is_connected := True,
        d_model := Some (str_lit ''11111''), d_valve_count := Some 2\<rparr>) = Inr 2"
proof -
  let ?c = "client_mock two_valve_reads Map.empty"
  let ?d' = "(Device_init ''AA'')
       \<lparr>d_connection := Some ?c, d_is_connected := True,
        d_model := Some (str_lit ''11111''), d_valve_count := Some 2\<rparr>"
  have run: "connect (test_env ?c) 4 (Device_init ''AA'') = Returned ?d'"
    by (subst connect_fresh [where c = ?c
          and p = "map of_char ''111110200''" and s = "str_lit ''111110200''"])
       (simp_all add: decode_utf8_Nil decode_utf8_ascii_Cons test_env_def client_mock_def
          two_valve_reads_def Device_init_def int_slice_6_7_def str_lit_def)
  have hyp: "\<not> d_is_connected (Device_init ''AA'')"
    "establish_connection (test_env ?c) 4 = Inr ?c"
    "read_gatt_char ?c MANUFACTURER_UUID = Inr (map of_char ''111110200'')"
    "\<forall>b\<in>set (map of_char ''111110200'' :: byte list). b < 0x80"
    "d_is_connected ?d'"
    by (simp_all add: Device_init_def test_env_def client_mock_def two_valve_reads_def)
  from connect_reads_model [of "Device_init ''AA''" "test_env ?c" 4 ?c
      "map of_char ''111110200''" ?d'] run hyp
  have "model ?d' = Inr (map unat (take 5 (map of_char ''111110200'' :: byte list))) \<and>
        valve_count ?d' = Inr (int (unat ((map of_char ''111110200'' :: byte list) ! 6)) - 48)"
    by blast
  then have "model ?d' = Inr (str_lit ''11111'') \<and> valve_count ?d' = Inr 2"
    by (simp add: str_lit_def)
  with run show ?thesis by blast
qed

section \<open>Device: the list of valves\<close>

text \<open>
  \<open>Device.__init__\<close> creates four valves, and no operation adds or removes one:
  whether it returns or raises, \<open>connect\<close>, \<open>fetch_state\<close> and \<open>push_state\<close> leave
  a list of the same length behind.
\<close>

lemma state_of_simps: "state_of (Returned s) = s" "state_of (Raised err s) = s"
  by (simp_all add: state_of_def)

lemma Device_init_valves: "length (d_valves (Device_init address)) = 4"
  by (simp add: Device_init_def)

lemma update_valves_length:
  "length (state_of (update_valves ts us ba u vs)) = length vs"
proof (induction vs)
  case Nil
  then show ?case by (simp add: state_of_simps)
next
  case (Cons v vs)
  show ?case
  proof (cases "update_valves ts us ba u vs")
    case (Returned s)
    with Cons show ?thesis
      by (simp add: state_of_simps split: sum.splits result.splits)
  next
    case (Raised err s)
    with Cons show ?thesis
      by (simp add: state_of_simps split: sum.splits result.splits)
  qed
qed

lemma fetch_loop_valves_length:
  "length (d_valves (state_of (fetch_loop e us ba xs d))) = length (d_valves d)"
proof (induction xs arbitrary: d)
  case Nil
  then show ?case by (simp add: state_of_simps)
next
  case (Cons x xs)
  obtain i some_bytes where x: "x = (i, some_bytes)" by (cases x)
  have step: "length (d_valves (state_of
        (case update_valves (time_shift e) us ba u (d_valves s) of
           Raised err vs \<Rightarrow> Raised err (s\<lparr>d_valves := vs\<rparr>)
         | Returned vs \<Rightarrow> fetch_loop e us ba xs (s\<lparr>d_valves := vs\<rparr>)))) =
      length (d_valves s)" for u s
  proof (cases "update_valves (time_shift e) us ba u (d_valves s)")
    case (Returned vs)
    then have "length vs = length (d_valves s)"
      using update_valves_length [of "time_shift e" us ba u "d_valves s"]
      by (simp add: state_of_simps)
    then show ?thesis using Returned Cons.IH [of "s\<lparr>d_valves := vs\<rparr>"] by simp
  next
    case (Raised err vs)
    then have "length vs = length (d_valves s)"
      using update_valves_length [of "time_shift e" us ba u "d_valves s"]
      by (simp add: state_of_simps)
    then show ?thesis using Raised by (simp add: state_of_simps)
  qed
  show ?case
    unfolding x
    using step [where s = d] step [where s = "d\<lparr>d_battery := b\<rparr>" for b]
    by (simp add: state_of_simps split: sum.splits)
qed

lemma connect_valves: "d_valves (state_of (connect e n d)) = d_valves d"
  by (simp add: connect_def connect_except_def read_model_def state_of_simps Let_def
      split: sum.splits result.splits option.splits)

lemma fetch_state_valves_length:
  "length (d_valves (state_of (fetch_state e dropped d))) = length (d_valves d)"
proof (cases "if \<not> d_is_connected d then connect e 1 d else Returned d")
  case (Raised err s)
  then have "d_valves s = d_valves d"
    using connect_valves [of e 1 d] by (simp add: state_of_simps split: if_splits)
  with Raised show ?thesis by (simp add: fetch_state_def state_of_simps)
next
  case (Returned s)
  then have v: "d_valves s = d_valves d"
    using connect_valves [of e 1 d] by (simp add: state_of_simps split: if_splits)
  define s2 where "s2 = (if dropped then disconnected_callback s else s)"
  have v2: "d_valves s2 = d_valves d"
    using v by (simp add: s2_def disconnected_callback_def)
  define us where "us = [BATTERY_UUID, VALVE_MANUAL_SETTINGS_UUID, VALVE_MANUAL_STATES_UUID]"
  define ba where "ba = gather (map (read s) us)"
  have len: "length (d_valves (state_of (fetch_loop e us ba (enumerate 0 ba) s2))) =
        length (d_valves d)"
    using fetch_loop_valves_length [of e us ba "enumerate 0 ba" s2] v2 by simp
  have fs: "fetch_state e dropped d =
      (case fetch_loop e us ba (enumerate 0 ba) s2 of
         Raised err s3 \<Rightarrow>
           (if err = BleakError
            then (if d_is_connected s3 then Raised err s3 else Returned s3)
            else Raised err s3)
       | Returned s3 \<Rightarrow> Returned s3)"
    by (simp add: fetch_state_def Returned Let_def us_def ba_def s2_def)
  show ?thesis
  proof (cases "fetch_loop e us ba (enumerate 0 ba) s2")
    case r: (Returned s3)
    with len fs show ?thesis by (simp add: state_of_simps)
  next
    case r: (Raised err s3)
    with len fs show ?thesis by (simp add: state_of_simps)
  qed
qed

lemma push_state_valves: "d_valves (state_of (push_state e d)) = d_valves d"
proof (cases "if \<not> d_is_connected d then connect e 1 d else Returned d")
  case (Raised err s)
  then have "d_valves s = d_valves d"
    using connect_valves [of e 1 d] by (simp add: state_of_simps split: if_splits)
  with Raised show ?thesis by (simp add: push_state_def state_of_simps)
next
  case (Returned s)
  then have v: "d_valves s = d_valves d"
    using connect_valves [of e 1 d] by (simp add: state_of_simps split: if_splits)
  have a: "d_valves (state_of (push_settings s)) = d_valves s" for s
    by (simp add: push_settings_def device_write_def state_of_simps
        split: option.splits sum.splits result.splits)
  have b: "d_valves (state_of (push_updated_at e s)) = d_valves s" for s
    by (simp add: push_updated_at_def device_write_def state_of_simps
        split: option.splits sum.splits result.splits)
  show ?thesis
  proof (cases "push_settings s")
    case (Raised err s2)
    then show ?thesis
      using a [of s] v Returned by (simp add: push_state_def state_of_simps)
  next
    case r: (Returned s2)
    then show ?thesis
      using a [of s] b [of s2] v Returned by (simp add: push_state_def state_of_simps)
  qed
qed

lemma connect_when_connected: "d_is_connected d \<Longrightarrow> connect e n d = Returned d"
  by (simp add: connect_def)

section \<open>Device: zones\<close>

text \<open>
  Claim C7. On a device with its four valves: \<open>zone1\<close> is the valve at index 0; with
  valve count \<open>v\<close>, \<open>zone2\<close> is the valve at index 1 if \<open>v > 1\<close> and \<open>None\<close>
  otherwise, \<open>zone3\<close> is the valve at index 2 if \<open>v > 2\<close> and \<open>None\<close> otherwise, and
  \<open>zone4\<close> is the valve at index 3 under the same condition \<open>v > 2\<close> and \<open>None\<close>
  otherwise.
\<close>

theorem zone_accessors:
  assumes "length (d_valves d) = 4"
  shows "zone1 d = Inr (Some (d_valves d ! 0)) \<and>
         (d_valve_count d = Some v \<longrightarrow>
            zone2 d = Inr (if v > 1 then Some (d_valves d ! 1) else None) \<and>
            zone3 d = Inr (if v > 2 then Some (d_valves d ! 2) else None) \<and>
            zone4 d = Inr (if v > 2 then Some (d_valves d ! 3) else None))"
  using assms by (simp add: zone1_def zone2_def zone3_def zone4_def subscript_def)

theorem zone_accessors_witness:
  "zone1 ((Device_init ''AA'')\<lparr>d_valve_count := Some 1\<rparr>) = Inr (Some (Valve_init 0)) \<and>
   zone2 ((Device_init ''AA'')\<lparr>d_valve_count := Some 1\<rparr>) = Inr None \<and>
   zone3 ((Device_init ''AA'')\<lparr>d_valve_count := Some 1\<rparr>) = Inr None \<and>
   zone4 ((Device_init ''AA'')\<lparr>d_valve_count := Some 1\<rparr>) = Inr None \<and>
   zone2 ((Device_init ''AA'')\<lparr>d_valve_count := Some 2\<rparr>) = Inr (Some (Valve_init 1)) \<and>
   zone3 ((Device_init ''AA'')\<lparr>d_valve_count := Some 2\<rparr>) = Inr None \<and>
   zone3 ((Device_init ''AA'')\<lparr>d_valve_count := Some 3\<rparr>) = Inr (Some (Valve_init 2)) \<and>
   zone4 ((Device_init ''AA'')\<lparr>d_valve_count := Some 3\<rparr>) = Inr (Some (Valve_init 3))"
  using zone_accessors [of "(Device_init ''AA'')\<lparr>d_valve_count := Some 1\<rparr>" 1]
    zone_accessors [of "(Device_init ''AA'')\<lparr>d_valve_count := Some 2\<rparr>" 2]
    zone_accessors [of "(Device_init ''AA'')\<lparr>d_valve_count := Some 3\<rparr>" 3]
  by (simp add: Device_init_def)

text \<open>
  Claim C10. \<open>device[key]\<close> is \<open>None\<close>, and no exception, for every key other than
  the four zone names, and for each zone name it is what the zone property of that name
  gives (its value or its exception).
\<close>

theorem getitem_keys:
  "(key \<notin> {str_lit ''zone1'', str_lit ''zone2'', str_lit ''zone3'', str_lit ''zone4''} \<longrightarrow>
      getitem d key = Inr None) \<and>
   getitem d (str_lit ''zone1'') = zone1 d \<and>
   getitem d (str_lit ''zone2'') = zone2 d \<and>
   getitem d (str_lit ''zone3'') = zone3 d \<and>
   getitem d (str_lit ''zone4'') = zone4 d"
  by (simp add: getitem_def str_lit_def)

theorem getitem_keys_witness:
  "getitem (Device_init ''AA'') (str_lit ''zone5'') = Inr None \<and>
   getitem (Device_init ''AA'') (str_lit ''battery'') = Inr None \<and>
   getitem (Device_init ''AA'') [] = Inr None"
  using getitem_keys [of "str_lit ''zone5''" "Device_init ''AA''"]
    getitem_keys [of "str_lit ''battery''" "Device_init ''AA''"]
    getitem_keys [of "[]" "Device_init ''AA''"]
  by (simp add: str_lit_def)

section \<open>Device: pushing the state\<close>

lemma manual_setting_bytes_length:
  "manual_setting_bytes v = Inr p \<Longrightarrow> length p = 5"
  by (auto simp: manual_setting_bytes_def pack_H_def pack_bool_def split: sum.splits if_splits)

lemma settings_payload_four:
  assumes "length (d_valves d) = 4"
    and "manual_setting_bytes (d_valves d ! 0) = Inr p0"
    and "manual_setting_bytes (d_valves d ! 1) = Inr p1"
    and "manual_setting_bytes (d_valves d ! 2) = Inr p2"
    and "manual_setting_bytes (d_valves d ! 3) = Inr p3"
  shows "settings_payload d = Inr (p0 @ p1 @ p2 @ p3)"
  using assms by (simp add: settings_payload_def subscript_def)

lemma push_updated_at_log:
  assumes "d_connection d = Some c"
  shows "\<exists>c2. d_connection (state_of (push_updated_at e d)) = Some c2 \<and>
           (written c2 = written c \<or>
            (\<exists>u t. get_characteristic c UPDATED_AT_UUID = Some u \<and>
                   pack_I (get_timestamp e) = Inr t \<and> written c2 = written c @ [(u, t, True)]))"
  using assms
  by (auto simp: push_updated_at_def device_write_def write_gatt_char_def state_of_def Let_def
      split: option.splits sum.splits)

lemma push_settings_present:
  assumes "d_connection d = Some c"
    and "get_characteristic c VALVE_MANUAL_SETTINGS_UUID = Some h"
    and "settings_payload d = Inr data"
  shows "push_settings d =
    (case write_outcome c h data of
       None \<Rightarrow> Returned (d\<lparr>d_connection := Some (c\<lparr>written := written c @ [(h, data, True)]\<rparr>)\<rparr>)
     | Some err \<Rightarrow> Raised err (d\<lparr>d_connection := Some (c\<lparr>written := written c @ [(h, data, True)]\<rparr>)\<rparr>))"
  using assms
  by (simp add: push_settings_def device_write_def write_gatt_char_def Let_def
      split: option.splits)

lemma push_settings_absent:
  assumes "d_connection d = Some c"
    and "get_characteristic c VALVE_MANUAL_SETTINGS_UUID = None"
  shows "push_settings d = Returned d"
  using assms by (simp add: push_settings_def)

text \<open>
  The log of the client after \<open>push_state\<close>, given what the four valves encode to: the
  settings write comes first and carries the four encodings in the order 0, 1, 2, 3; the
  only write that may follow is the one of the timestamp. Without the settings
  characteristic the call is the timestamp step alone.
\<close>

lemma push_state_settings_log:
  assumes "(if \<not> d_is_connected d then connect e 1 d else Returned d) = Returned d1"
    and "d_connection d1 = Some c"
  shows "(\<forall>h p0 p1 p2 p3.
            get_characteristic c VALVE_MANUAL_SETTINGS_UUID = Some h \<and>
            length (d_valves d1) = 4 \<and>
            manual_setting_bytes (d_valves d1 ! 0) = Inr p0 \<and>
            manual_setting_bytes (d_valves d1 ! 1) = Inr p1 \<and>
            manual_setting_bytes (d_valves d1 ! 2) = Inr p2 \<and>
            manual_setting_bytes (d_valves d1 ! 3) = Inr p3 \<longrightarrow>
              length (p0 @ p1 @ p2 @ p3) = 20 \<and>
              (\<exists>c2 rest. d_connection (state_of (push_state e d)) = Some c2 \<and>
                 written c2 = written c @ (h, p0 @ p1 @ p2 @ p3, True) # rest \<and>
                 (rest = [] \<or>
                  (\<exists>u t. get_characteristic c UPDATED_AT_UUID = Some u \<and>
                         pack_I (get_timestamp e) = Inr t \<and> rest = [(u, t, True)])))) \<and>
         (get_characteristic c VALVE_MANUAL_SETTINGS_UUID = None \<longrightarrow>
            push_state e d = push_updated_at e d1 \<and>
            (\<exists>c2. d_connection (state_of (push_state e d)) = Some c2 \<and>
               (written c2 = written c \<or>
                (\<exists>u t. get_characteristic c UPDATED_AT_UUID = Some u \<and>
                       pack_I (get_timestamp e) = Inr t \<and>
                       written c2 = written c @ [(u, t, True)]))) \<and>
            (get_characteristic c UPDATED_AT_UUID = None \<longrightarrow> push_state e d = Returned d1))"
proof (rule conjI)
  show "\<forall>h p0 p1 p2 p3.
            get_characteristic c VALVE_MANUAL_SETTINGS_UUID = Some h \<and>
            length (d_valves d1) = 4 \<and>
            manual_setting_bytes (d_valves d1 ! 0) = Inr p0 \<and>
            manual_setting_bytes (d_valves d1 ! 1) = Inr p1 \<and>
            manual_setting_bytes (d_valves d1 ! 2) = Inr p2 \<and>
            manual_setting_bytes (d_valves d1 ! 3) = Inr p3 \<longrightarrow>
              length (p0 @ p1 @ p2 @ p3) = 20 \<and>
              (\<exists>c2 rest. d_connection (state_of (push_state e d)) = Some c2 \<and>
                 written c2 = written c @ (h, p0 @ p1 @ p2 @ p3, True) # rest \<and>
                 (rest = [] \<or>
                  (\<exists>u t. get_characteristic c UPDATED_AT_UUID = Some u \<and>
                         pack_I (get_timestamp e) = Inr t \<and> rest = [(u, t, True)])))"
  proof (intro allI impI)
    fix h p0 p1 p2 p3
    assume a: "get_characteristic c VALVE_MANUAL_SETTINGS_UUID = Some h \<and>
            length (d_valves d1) = 4 \<and>
            manual_setting_bytes (d_valves d1 ! 0) = Inr p0 \<and>
            manual_setting_bytes (d_valves d1 ! 1) = Inr p1 \<and>
            manual_setting_bytes (d_valves d1 ! 2) = Inr p2 \<and>
            manual_setting_bytes (d_valves d1 ! 3) = Inr p3"
    let ?data = "p0 @ p1 @ p2 @ p3"
    let ?c1 = "c\<lparr>written := written c @ [(h, ?data, True)]\<rparr>"
    let ?d2 = "d1\<lparr>d_connection := Some ?c1\<rparr>"
    have "length p0 = 5" "length p1 = 5" "length p2 = 5" "length p3 = 5"
      using a by (blast intro: manual_setting_bytes_length)+
    then have len: "length ?data = 20" by simp
    have pay: "settings_payload d1 = Inr ?data"
      using a by (intro settings_payload_four) simp_all
    have ps: "push_settings d1 =
      (case write_outcome c h ?data of None \<Rightarrow> Returned ?d2 | Some err \<Rightarrow> Raised err ?d2)"
      using a pay assms(2) by (intro push_settings_present) simp_all
    have log: "\<exists>c2 rest. d_connection (state_of (push_state e d)) = Some c2 \<and>
                 written c2 = written c @ (h, ?data, True) # rest \<and>
                 (rest = [] \<or>
                  (\<exists>u t. get_characteristic c UPDATED_AT_UUID = Some u \<and>
                         pack_I (get_timestamp e) = Inr t \<and> rest = [(u, t, True)]))"
    proof (cases "write_outcome c h ?data")
      case (Some err)
      then have "push_state e d = Raised err ?d2"
        using assms(1) ps by (simp add: push_state_def)
      then show ?thesis by (simp add: state_of_def)
    next
      case None
      then have p: "push_state e d = push_updated_at e ?d2"
        using assms(1) ps by (simp add: push_state_def)
      have "d_connection ?d2 = Some ?c1" by simp
      from push_updated_at_log [OF this, of e] show ?thesis
        unfolding p by auto
    qed
    from len log show "length ?data = 20 \<and>
              (\<exists>c2 rest. d_connection (state_of (push_state e d)) = Some c2 \<and>
                 written c2 = written c @ (h, ?data, True) # rest \<and>
                 (rest = [] \<or>
                  (\<exists>u t. get_characteristic c UPDATED_AT_UUID = Some u \<and>
                         pack_I (get_timestamp e) = Inr t \<and> rest = [(u, t, True)])))"
      by (rule conjI)
  qed
next
  show "get_characteristic c VALVE_MANUAL_SETTINGS_UUID = None \<longrightarrow>
            push_state e d = push_updated_at e d1 \<and>
            (\<exists>c2. d_connection (state_of (push_state e d)) = Some c2 \<and>
               (written c2 = written c \<or>
                (\<exists>u t. get_characteristic c UPDATED_AT_UUID = Some u \<and>
                       pack_I (get_timestamp e) = Inr t \<and>
                       written c2 = written c @ [(u, t, True)]))) \<and>
            (get_characteristic c UPDATED_AT_UUID = None \<longrightarrow> push_state e d = Returned d1)"
  proof (rule impI)
    assume a: "get_characteristic c VALVE_MANUAL_SETTINGS_UUID = None"
    have p: "push_state e d = push_updated_at e d1"
      using assms a by (simp add: push_state_def push_settings_absent)
    have u: "get_characteristic c UPDATED_AT_UUID = None \<longrightarrow> push_updated_at e d1 = Returned d1"
      using assms(2) by (simp add: push_updated_at_def)
    from push_updated_at_log [OF assms(2), of e] p u
    show "push_state e d = push_updated_at e d1 \<and>
            (\<exists>c2. d_connection (state_of (push_state e d)) = Some c2 \<and>
               (written c2 = written c \<or>
                (\<exists>u t. get_characteristic c UPDATED_AT_UUID = Some u \<and>
                       pack_I (get_timestamp e) = Inr t \<and>
                       written c2 = written c @ [(u, t, True)]))) \<and>
            (get_characteristic c UPDATED_AT_UUID = None \<longrightarrow> push_state e d = Returned d1)"
      by simp
  qed
qed

lemma manual_setting_bytes_in_range:
  assumes "0 \<le> manual_watering_minutes v" and "manual_watering_minutes v \<le> 65535"
  shows "\<exists>p. manual_setting_bytes v = Inr p"
  using assms by (simp add: manual_setting_bytes_def manual_watering_minutes_def pack_H_def)

text \<open>
  Claim C8, as amended. Let the device be connected to \<open>c\<close> once \<open>push_state\<close> has
  made sure of the connection, and let it hold its four valves. If the service table of
  \<open>c\<close> has the settings characteristic and the \<open>manual_watering_minutes\<close> of every
  valve lie in \<open>0 .. 65535\<close>, the four valves encode, and the first write of the call
  goes to that characteristic and carries the 20 bytes of the four encodings in the order
  0, 1, 2, 3; the only write that may follow is the one of the timestamp. If the table
  lacks the settings characteristic, the call is the timestamp step alone: nothing is
  written but possibly the timestamp, and when that characteristic is lacking too the
  call returns with the device as it was.
\<close>

theorem push_state_settings_write:
  assumes "(if \<not> d_is_connected d then connect e 1 d else Returned d) = Returned d1"
    and "d_connection d1 = Some c"
    and "length (d_valves d1) = 4"
  shows "(\<forall>h. get_characteristic c VALVE_MANUAL_SETTINGS_UUID = Some h \<and>
              (\<forall>v\<in>set (d_valves d1).
                 0 \<le> manual_watering_minutes v \<and> manual_watering_minutes v \<le> 65535) \<longrightarrow>
              (\<exists>p0 p1 p2 p3 c2 rest.
                 manual_setting_bytes (d_valves d1 ! 0) = Inr p0 \<and>
                 manual_setting_bytes (d_valves d1 ! 1) = Inr p1 \<and>
                 manual_setting_bytes (d_valves d1 ! 2) = Inr p2 \<and>
                 manual_setting_bytes (d_valves d1 ! 3) = Inr p3 \<and>
                 length (p0 @ p1 @ p2 @ p3) = 20 \<and>
                 d_connection (state_of (push_state e d)) = Some c2 \<and>
                 written c2 = written c @ (h, p0 @ p1 @ p2 @ p3, True) # rest \<and>
                 (rest = [] \<or>
                  (\<exists>u t. get_characteristic c UPDATED_AT_UUID = Some u \<and>
                         pack_I (get_timestamp e) = Inr t \<and> rest = [(u, t, True)])))) \<and>
         (get_characteristic c VALVE_MANUAL_SETTINGS_UUID = None \<longrightarrow>
            push_state e d = push_updated_at e d1 \<and>
            (\<exists>c2. d_connection (state_of (push_state e d)) = Some c2 \<and>
               (written c2 = written c \<or>
                (\<exists>u t. get_characteristic c UPDATED_AT_UUID = Some u \<and>
                       pack_I (get_timestamp e) = Inr t \<and>
                       written c2 = written c @ [(u, t, True)]))) \<and>
            (get_characteristic c UPDATED_AT_UUID = None \<longrightarrow> push_state e d = Returned d1))"
proof (rule conjI)
  show "\<forall>h. get_characteristic c VALVE_MANUAL_SETTINGS_UUID = Some h \<and>
              (\<forall>v\<in>set (d_valves d1).
                 0 \<le> manual_watering_minutes v \<and> manual_watering_minutes v \<le> 65535) \<longrightarrow>
              (\<exists>p0 p1 p2 p3 c2 rest.
                 manual_setting_bytes (d_valves d1 ! 0) = Inr p0 \<and>
                 manual_setting_bytes (d_valves d1 ! 1) = Inr p1 \<and>
                 manual_setting_bytes (d_valves d1 ! 2) = Inr p2 \<and>
                 manual_setting_bytes (d_valves d1 ! 3) = Inr p3 \<and>
                 length (p0 @ p1 @ p2 @ p3) = 20 \<and>
                 d_connection (state_of (push_state e d)) = Some c2 \<and>
                 written c2 = written c @ (h, p0 @ p1 @ p2 @ p3, True) # rest \<and>
                 (rest = [] \<or>
                  (\<exists>u t. get_characteristic c UPDATED_AT_UUID = Some u \<and>
                         pack_I (get_timestamp e) = Inr t \<and> rest = [(u, t, True)])))"
  proof (intro allI impI)
    fix h
    assume a: "get_characteristic c VALVE_MANUAL_SETTINGS_UUID = Some h \<and>
              (\<forall>v\<in>set (d_valves d1).
                 0 \<le> manual_watering_minutes v \<and> manual_watering_minutes v \<le> 65535)"
    have enc: "\<exists>p. manual_setting_bytes (d_valves d1 ! k) = Inr p" if "k < 4" for k
    proof -
      have "d_valves d1 ! k \<in> set (d_valves d1)" using that assms(3) by simp
      with a show ?thesis by (blast intro: manual_setting_bytes_in_range)
    qed
    obtain p0 where p0: "manual_setting_bytes (d_valves d1 ! 0) = Inr p0"
      using enc [of 0] by auto
    obtain p1 where p1: "manual_setting_bytes (d_valves d1 ! 1) = Inr p1"
      using enc [of 1] by auto
    obtain p2 where p2: "manual_setting_bytes (d_valves d1 ! 2) = Inr p2"
      using enc [of 2] by auto
    obtain p3 where p3: "manual_setting_bytes (d_valves d1 ! 3) = Inr p3"
      using enc [of 3] by auto
    from push_state_settings_log [OF assms(1,2), THEN conjunct1, rule_format,
        of h p0 p1 p2 p3] a assms(3) p0 p1 p2 p3
    obtain c2 rest where "length (p0 @ p1 @ p2 @ p3) = 20"
      and "d_connection (state_of (push_state e d)) = Some c2"
      and "written c2 = written c @ (h, p0 @ p1 @ p2 @ p3, True) # rest"
      and "rest = [] \<or>
           (\<exists>u t. get_characteristic c UPDATED_AT_UUID = Some u \<and>
                  pack_I (get_timestamp e) = Inr t \<and> rest = [(u, t, True)])"
      by blast
    with p0 p1 p2 p3 show "\<exists>p0 p1 p2 p3 c2 rest.
                 manual_setting_bytes (d_valves d1 ! 0) = Inr p0 \<and>
                 manual_setting_bytes (d_valves d1 ! 1) = Inr p1 \<and>
                 manual_setting_bytes (d_valves d1 ! 2) = Inr p2 \<and>
                 manual_setting_bytes (d_valves d1 ! 3) = Inr p3 \<and>
                 length (p0 @ p1 @ p2 @ p3) = 20 \<and>
                 d_connection (state_of (push_state e d)) = Some c2 \<and>
                 written c2 = written c @ (h, p0 @ p1 @ p2 @ p3, True) # rest \<and>
                 (rest = [] \<or>
                  (\<exists>u t. get_characteristic c UPDATED_AT_UUID = Some u \<and>
                         pack_I (get_timestamp e) = Inr t \<and> rest = [(u, t, True)]))"
      by blast
  qed
next
  show "get_characteristic c VALVE_MANUAL_SETTINGS_UUID = None \<longrightarrow>
            push_state e d = push_updated_at e d1 \<and>
            (\<exists>c2. d_connection (state_of (push_state e d)) = Some c2 \<and>
               (written c2 = written c \<or>
                (\<exists>u t. get_characteristic c UPDATED_AT_UUID = Some u \<and>
                       pack_I (get_timestamp e) = Inr t \<and>
                       written c2 = written c @ [(u, t, True)]))) \<and>
            (get_characteristic c UPDATED_AT_UUID = None \<longrightarrow> push_state e d = Returned d1)"
    by (rule push_state_settings_log [OF assms(1,2), THEN conjunct2])
qed

theorem push_state_settings_write_witness:
  "(\<exists>c2. d_connection (state_of
       (push_state (test_env (client_mock two_valve_reads settings_table))
          (one_valve_device settings_table))) = Some c2 \<and>
     written c2 =
       [(7, [0x01, 0x00, 0x0A, 0x00, 0x0A, 0x00, 0x00, 0x14, 0x00, 0x14,
             0x00, 0x00, 0x14, 0x00, 0x14, 0x00, 0x00, 0x14, 0x00, 0x14], True)]) \<and>
   push_state (test_env (client_mock two_valve_reads Map.empty)) (one_valve_device Map.empty) =
     Returned (one_valve_device Map.empty)"
proof -
  let ?c = "client_mock two_valve_reads settings_table"
  let ?d = "one_valve_device settings_table"
  have pre: "(if \<not> d_is_connected ?d then connect (test_env ?c) 1 ?d else Returned ?d) = Returned ?d"
    "d_connection ?d = Some ?c" "length (d_valves ?d) = 4"
    by (simp_all add: one_valve_device_def)
  have rng: "\<forall>v\<in>set (d_valves ?d).
      0 \<le> manual_watering_minutes v \<and> manual_watering_minutes v \<le> 65535"
    by (simp add: one_valve_device_def Valve_init_def manual_watering_minutes_def)
  have enc: "get_characteristic ?c VALVE_MANUAL_SETTINGS_UUID = Some 7"
    "get_characteristic ?c UPDATED_AT_UUID = None"
    "manual_setting_bytes (d_valves ?d ! 0) = Inr [0x01, 0x00, 0x0A, 0x00, 0x0A]"
    "manual_setting_bytes (d_valves ?d ! 1) = Inr [0x00, 0x00, 0x14, 0x00, 0x14]"
    "manual_setting_bytes (d_valves ?d ! 2) = Inr [0x00, 0x00, 0x14, 0x00, 0x14]"
    "manual_setting_bytes (d_valves ?d ! 3) = Inr [0x00, 0x00, 0x14, 0x00, 0x14]"
    "written ?c = []"
    by (simp_all add: one_valve_device_def client_mock_def settings_table_def Valve_init_def
        manual_setting_bytes_def pack_H_def pack_bool_def)
  have a: "\<exists>c2. d_connection (state_of (push_state (test_env ?c) ?d)) = Some c2 \<and>
     written c2 =
       [(7, [0x01, 0x00, 0x0A, 0x00, 0x0A, 0x00, 0x00, 0x14, 0x00, 0x14,
             0x00, 0x00, 0x14, 0x00, 0x14, 0x00, 0x00, 0x14, 0x00, 0x14], True)]"
    using push_state_settings_write [OF pre, THEN conjunct1, rule_format, of 7] enc rng
    by auto
  let ?c0 = "client_mock two_valve_reads Map.empty"
  let ?d0 = "one_valve_device Map.empty"
  have pre0: "(if \<not> d_is_connected ?d0 then connect (test_env ?c0) 1 ?d0 else Returned ?d0)
      = Returned ?d0" "d_connection ?d0 = Some ?c0" "length (d_valves ?d0) = 4"
    by (simp_all add: one_valve_device_def)
  have "get_characteristic ?c0 VALVE_MANUAL_SETTINGS_UUID = None"
    "get_characteristic ?c0 UPDATED_AT_UUID = None"
    by (simp_all add: client_mock_def)
  then have b: "push_state (test_env ?c0) ?d0 = Returned ?d0"
    using push_state_settings_write [OF pre0] by blast
  from a b show ?thesis by blast
qed

text \<open>
  The device of the fixture with 65536 minutes assigned to its third valve, and the
  settings characteristic in the service table: the payload cannot be packed, so
  \<open>push_state\<close> raises \<open>struct.error\<close> and leaves the device and its client as they
  were, with nothing written.
\<close>

theorem push_state_settings_write_counterexample:
  "push_state (test_env (client_mock two_valve_reads settings_table))
     ((one_valve_device settings_table)
        \<lparr>d_valves := [Valve_init 0, Valve_init 1,
                      (Valve_init 2)\<lparr>v_manual_minutes := 65536\<rparr>, Valve_init 3]\<rparr>) =
   Raised StructError
     ((one_valve_device settings_table)
        \<lparr>d_valves := [Valve_init 0, Valve_init 1,
                      (Valve_init 2)\<lparr>v_manual_minutes := 65536\<rparr>, Valve_init 3]\<rparr>) \<and>
   d_connection (one_valve_device settings_table) =
     Some (client_mock two_valve_reads settings_table) \<and>
   get_characteristic (client_mock two_valve_reads settings_table) VALVE_MANUAL_SETTINGS_UUID =
     Some 7 \<and>
   written (client_mock two_valve_reads settings_table) = []"
  by (simp add: push_state_def push_settings_def settings_payload_def subscript_def
      one_valve_device_def client_mock_def settings_table_def Valve_init_def
      manual_setting_bytes_def pack_H_def pack_bool_def)

section \<open>Device: fetching the state\<close>

text \<open>
  A failed read of the valve settings, whatever the exception: the battery is parsed,
  every valve ignores the battery bytes, and the first valve raises \<open>TypeError\<close> on the
  exception object that stands where the settings bytes should be.
\<close>

lemma update_valves_not_bytes:
  assumes "index us u = Inr k" and "subscript ba k = Inr (Exc err)"
    and "u = VALVE_MANUAL_SETTINGS_UUID \<or> u = VALVE_MANUAL_STATES_UUID"
  shows "update_valves ts us ba u (v # vs) = Raised TypeError (v # vs)"
  using assms
  by (auto simp: update_state_def unpack_from_bool_def unpack_from_I_def unpack_from_def)

lemma update_valves_battery:
  assumes "index us BATTERY_UUID = Inr k" and "subscript ba k = Inr raw"
  shows "update_valves ts us ba BATTERY_UUID vs = Returned vs"
  using assms by (induction vs) (simp_all add: update_state_def)

lemma fetch_state_settings_read_fails:
  assumes "d_is_connected d" and "d_connection d = Some c"
    and "read_gatt_char c BATTERY_UUID = Inr b"
    and "parse_battery_value e (Bytes b) = Inr n"
    and "read_gatt_char c VALVE_MANUAL_SETTINGS_UUID = Inl err"
    and "d_valves d \<noteq> []"
  shows "fetch_state e dropped d =
         Raised TypeError (d\<lparr>d_is_connected := \<not> dropped, d_battery := n\<rparr>)"
proof -
  obtain v vs where vs: "d_valves d = v # vs"
    using assms(6) by (cases "d_valves d") auto
  let ?us = "[BATTERY_UUID, VALVE_MANUAL_SETTINGS_UUID, VALVE_MANUAL_STATES_UUID]"
  let ?ba = "gather (map (read d) ?us)"
  obtain x where ba: "?ba = [Bytes b, Exc err, x]"
    using assms by (simp add: gather_def read_def)
  let ?d2 = "if dropped then disconnected_callback d else d"
  have bat: "update_valves (time_shift e) ?us ?ba BATTERY_UUID ws = Returned ws" for ws
    unfolding ba by (rule update_valves_battery [where k = 0]) (simp_all add: subscript_def)
  have set: "update_valves (time_shift e) ?us ?ba VALVE_MANUAL_SETTINGS_UUID (v # vs) =
      Raised TypeError (v # vs)"
    unfolding ba
    by (rule update_valves_not_bytes [where k = 1 and err = err]) (simp_all add: subscript_def)
  have d2v: "d_valves ?d2 = v # vs"
    using vs by (simp add: disconnected_callback_def)
  have "fetch_loop e ?us ?ba (enumerate 0 ?ba) ?d2 = Raised TypeError (?d2\<lparr>d_battery := n\<rparr>)"
    using assms(4) d2v bat [of "v # vs"] set
    unfolding ba
    by (simp add: enumerate_simps subscript_def)
  then have "fetch_state e dropped d = Raised TypeError (?d2\<lparr>d_battery := n\<rparr>)"
    using assms(1) by (simp add: fetch_state_def Let_def)
  moreover have "?d2\<lparr>d_battery := n\<rparr> = d\<lparr>d_is_connected := \<not> dropped, d_battery := n\<rparr>"
    using assms(1) by (simp add: disconnected_callback_def)
  ultimately show ?thesis by simp
qed

text \<open>
  Claim C5, evaluated where the code departs from it. The read of the valve settings
  raises \<open>BleakError\<close> while the battery and the valve states are read. Because the
  reads are gathered with \<open>return_exceptions=True\<close>, the exception object becomes an
  entry of \<open>bytes_array\<close>; the first valve then unpacks it and raises \<open>TypeError\<close>,
  which the handler for \<open>BleakError\<close> does not catch. The call raises \<open>TypeError\<close>
  both when the device was disconnected during the reads and when it was not.
\<close>

theorem fetch_state_read_failure:
  "fetch_state (test_env (client_mock failing_reads Map.empty)) True
     ((Device_init ''AA'')
       \<lparr>d_connection := Some (client_mock failing_reads Map.empty), d_is_connected := True,
        d_model := Some (str_lit ''11111''), d_valve_count := Some 4\<rparr>) =
   Raised TypeError
     ((Device_init ''AA'')
       \<lparr>d_connection := Some (client_mock failing_reads Map.empty), d_is_connected := False,
        d_model := Some (str_lit ''11111''), d_valve_count := Some 4, d_battery := 30\<rparr>) \<and>
   fetch_state (test_env (client_mock failing_reads Map.empty)) False
     ((Device_init ''AA'')
       \<lparr>d_connection := Some (client_mock failing_reads Map.empty), d_is_connected := True,
        d_model := Some (str_lit ''11111''), d_valve_count := Some 4\<rparr>) =
   Raised TypeError
     ((Device_init ''AA'')
       \<lparr>d_connection := Some (client_mock failing_reads Map.empty), d_is_connected := True,
        d_model := Some (str_lit ''11111''), d_valve_count := Some 4, d_battery := 30\<rparr>)"
  by (simp add: fetch_state_def gather_def read_def client_mock_def failing_reads_def
      test_env_def Device_init_def disconnected_callback_def subscript_def update_state_def
      unpack_from_bool_def unpack_from_def enumerate_simps)

end
